theory Spec2Isabelle
  imports Main
begin

section \<open>The A10x SDK usage example (PythonExample/simple_example.py)\<close>

text \<open>
  The script sequences calls into a closed vendor SDK and the Python runtime. Everything
  the script does not own is a parameter of the model (the record \<open>world\<close>): the
  \<open>os.path\<close> functions, the outcome of every external call, and the values the calls
  return. What the script does is observed as a trace of events: each log line, and
  each external call at the moment it is invoked.
\<close>

subsection \<open>Exceptions\<close>

text \<open>
  The script distinguishes exceptions only by class: \<open>except Exception\<close> (lines 65, 147),
  \<open>except AttributeError\<close> (line 48), and the \<open>FileNotFoundError\<close> it raises itself
  (line 33). \<open>KeyboardInterrupt\<close> stands for the classes that derive from
  \<open>BaseException\<close> but not from \<open>Exception\<close>; \<open>Exception\<close> stands for every class
  that derives from \<open>Exception\<close> and from neither of the two others (among them the
  .NET exceptions, which pythonnet maps below \<open>Exception\<close>).
\<close>

datatype exc_class = KeyboardInterrupt | Exception | AttributeError | FileNotFoundError

text \<open>An exception: its class and its message, \<open>str(e)\<close>.\<close>

datatype exc = Exc exc_class string

fun class_of :: "exc \<Rightarrow> exc_class" where
  "class_of (Exc c m) = c"

fun str_exc :: "exc \<Rightarrow> string" where
  "str_exc (Exc c m) = m"

text \<open>\<open>isinstance(e, Exception)\<close> and \<open>isinstance(e, AttributeError)\<close>.\<close>

definition is_Exception :: "exc \<Rightarrow> bool" where
  "is_Exception e = (class_of e \<noteq> KeyboardInterrupt)"

definition is_AttributeError :: "exc \<Rightarrow> bool" where
  "is_AttributeError e = (class_of e = AttributeError)"

subsection \<open>External operations, events and the world\<close>

text \<open>Every call that leaves the script, with the arguments the script passes.\<close>

datatype op =
    AddReference string
  | ImportSystem
  | ImportSDK
  | GetAssemblyVersion
  | GetAttr string
  | IdentifyDevice string
  | GetDeviceInfo string
  | NewSDK
  | Connect string
  | SetGain int
  | SetAscanAveraging int
  | SetPulseRepetitionRate int
  | SetQuadro8x4Transmitter int
  | SetSingle8x4Transmitter int
  | Subscribe
  | StartAscanSingleTransmitter
  | Sleep nat
  | StopAcquisition
  | Unsubscribe
  | Disconnect

datatype level = INFO | WARNING | ERROR

datatype event = Log level string | Invoke op

text \<open>
  \<open>fails w c\<close> is the exception the external call \<open>c\<close> raises, if it raises. The script
  makes each call at most once in a run, so a function of the call describes every
  behaviour of the black box in one run. \<open>GetAssemblyVersion\<close> is the reflection of
  lines 55 to 57 (\<open>GetAssembly\<close>, \<open>GetName\<close>, \<open>Version\<close> and its three components),
  \<open>GetDeviceInfo\<close> the call of line 96 with the two attribute reads of line 97,
  \<open>Subscribe\<close> and \<open>Unsubscribe\<close> the \<open>+=\<close> and \<open>-=\<close> on \<open>AscanDataReceived\<close>.
  Logging and the \<open>os.path\<close> functions do not raise.

  A trace is that of the thread that runs the script. The data handler of lines 125
  and 126 is called by the SDK, on the SDK's own threads, between its registration and
  its unregistration; the log lines it writes are not events of the trace.
\<close>

record world =
  isabs :: "string \<Rightarrow> bool"
  path_join :: "string \<Rightarrow> string \<Rightarrow> string"
  path_exists :: "string \<Rightarrow> bool"
  script_dir :: string
  fails :: "op \<Rightarrow> exc option"
  assembly_version :: "int \<times> int \<times> int"
  identify_result :: "string \<Rightarrow> bool"
  device_info :: "string \<Rightarrow> string \<times> string"
  is_main :: bool

subsection \<open>Computations: an outcome and the trace produced\<close>

datatype 'a outcome = Return 'a | Raise exc

type_synonym 'a comp = "'a outcome \<times> event list"

definition ret :: "'a \<Rightarrow> 'a comp" where
  "ret x = (Return x, [])"

definition raise :: "exc \<Rightarrow> 'a comp" where
  "raise e = (Raise e, [])"

text \<open>Sequencing: the second computation runs only if the first one did not raise.\<close>

definition bind :: "'a comp \<Rightarrow> ('a \<Rightarrow> 'b comp) \<Rightarrow> 'b comp" where
  "bind m f =
     (case m of
        (Raise e, t) \<Rightarrow> (Raise e, t)
      | (Return x, t) \<Rightarrow> (case f x of (r, t') \<Rightarrow> (r, t @ t')))"

definition logger :: "level \<Rightarrow> string \<Rightarrow> unit comp" where
  "logger l m = (Return (), [Log l m])"

definition call :: "world \<Rightarrow> op \<Rightarrow> unit comp" where
  "call w c =
     (case fails w c of
        None \<Rightarrow> (Return (), [Invoke c])
      | Some e \<Rightarrow> (Raise e, [Invoke c]))"

text \<open>A straight-line block of calls and log lines stops at the first call that raises.\<close>

datatype stmt = Call op | Logger level string

fun exec :: "world \<Rightarrow> stmt list \<Rightarrow> unit comp" where
  "exec w [] = ret ()"
| "exec w (Logger l m # ss) = bind (logger l m) (\<lambda>_. exec w ss)"
| "exec w (Call c # ss) = bind (call w c) (\<lambda>_. exec w ss)"

text \<open>
  Python's \<open>try: body except C as e: handler finally: final\<close>. The handler is \<open>None\<close>
  for an exception the \<open>except\<close> clause does not match. The \<open>finally\<close> block runs on
  every way out of the body and of the handler; if it raises, its exception replaces the
  pending outcome (a pending \<open>return\<close> included), otherwise the pending outcome stands.
\<close>

definition try_except_finally ::
  "'a comp \<Rightarrow> (exc \<Rightarrow> 'a comp option) \<Rightarrow> unit comp \<Rightarrow> 'a comp" where
  "try_except_finally body handler final =
     (let (pending, t) =
            (case body of
               (Return x, t) \<Rightarrow> (Return x, t)
             | (Raise e, t) \<Rightarrow>
                 (case handler e of
                    None \<Rightarrow> (Raise e, t)
                  | Some h \<Rightarrow> (fst h, t @ snd h)))
      in case final of
           (Return _, t') \<Rightarrow> (pending, t @ t')
         | (Raise d, t') \<Rightarrow> (Raise d, t @ t'))"

text \<open>A \<open>try\<close> statement without a \<open>finally\<close> clause.\<close>

definition try_except :: "'a comp \<Rightarrow> (exc \<Rightarrow> 'a comp option) \<Rightarrow> 'a comp" where
  "try_except body handler = try_except_finally body handler (ret ())"

subsection \<open>Strings\<close>

text \<open>
  Python compares strings lexicographically by code point, a proper prefix being the
  smaller. Strings are byte lists here; on UTF-8 the byte order is the code point order.
\<close>

fun str_lt :: "string \<Rightarrow> string \<Rightarrow> bool" where
  "str_lt [] [] = False"
| "str_lt [] (y # ys) = True"
| "str_lt (x # xs) [] = False"
| "str_lt (x # xs) (y # ys) =
     (if (of_char x :: nat) < of_char y then True
      else if (of_char y :: nat) < of_char x then False
      else str_lt xs ys)"

text \<open>\<open>str(n)\<close> of an integer, as an f-string formats it.\<close>

definition digit_char :: "nat \<Rightarrow> char" where
  "digit_char d = char_of (48 + d)"

fun str_nat :: "nat \<Rightarrow> string" where
  "str_nat n = (if n < 10 then [digit_char n] else str_nat (n div 10) @ [digit_char (n mod 10)])"

declare str_nat.simps [simp del]

definition str_int :: "int \<Rightarrow> string" where
  "str_int i = (if i < 0 then CHR ''-'' # str_nat (nat (- i)) else str_nat (nat i))"

subsection \<open>load_sdk_dlls (lines 14 to 41)\<close>

text \<open>The value of \<open>sdk_folder_path\<close> after line 28.\<close>

definition resolved_path :: "world \<Rightarrow> string \<Rightarrow> string" where
  "resolved_path w sdk_folder_path =
     (if \<not> isabs w sdk_folder_path then path_join w (script_dir w) sdk_folder_path
      else sdk_folder_path)"

definition load_sdk_dlls :: "world \<Rightarrow> string \<Rightarrow> unit comp" where
  "load_sdk_dlls w sdk_folder_path =
     bind (if \<not> isabs w sdk_folder_path
           then logger WARNING (''SDK folder path is relative: '' @ sdk_folder_path
                  @ ''. Trying to resolve it relative to the current file.'')
           else ret ()) (\<lambda>_.
     let p = resolved_path w sdk_folder_path in
     if \<not> path_exists w p
     then bind (logger ERROR (''Dependencies directory does not exist: '' @ p)) (\<lambda>_.
          raise (Exc FileNotFoundError (''Dependencies directory not found: '' @ p)))
     else exec w
            [Call (AddReference (path_join w p ''A10x_SDK.dll'')),
             Call (AddReference
                     (path_join w p ''Microsoft.Extensions.Logging.Abstractions.dll'')),
             Call (AddReference
                     (path_join w p
                        ''Microsoft.Extensions.DependencyInjection.Abstractions.dll'')),
             Call (AddReference
                     (path_join w p ''System.Diagnostics.DiagnosticSource.dll''))])"

subsection \<open>has_feature (lines 43 to 49)\<close>

definition has_feature :: "world \<Rightarrow> string \<Rightarrow> bool comp" where
  "has_feature w feature_name =
     try_except
       (bind (call w (GetAttr feature_name)) (\<lambda>_. ret True))
       (\<lambda>e. if is_AttributeError e then Some (ret False) else None)"

subsection \<open>check_sdk_version (lines 51 to 67)\<close>

definition version_str :: "int \<times> int \<times> int \<Rightarrow> string" where
  "version_str v =
     (case v of (major, minor, build) \<Rightarrow>
        str_int major @ ''.'' @ str_int minor @ ''.'' @ str_int build)"

definition check_sdk_version :: "world \<Rightarrow> string \<Rightarrow> string option comp" where
  "check_sdk_version w required_version =
     bind (call w ImportSystem) (\<lambda>_.
     try_except
       (bind (call w GetAssemblyVersion) (\<lambda>_.
        let v = version_str (assembly_version w) in
        bind (logger INFO (''A10x SDK Version: '' @ v)) (\<lambda>_.
        if str_lt v required_version
        then raise (Exc Exception (''SDK version '' @ v @ '' is below required ''
                      @ required_version))
        else ret (Some v))))
       (\<lambda>e. if is_Exception e
            then Some (bind (logger ERROR (''Version check failed: '' @ str_exc e)) (\<lambda>_.
                       ret None))
            else None))"

subsection \<open>simple_example (lines 81 to 154)\<close>

definition device_ip :: string where
  "device_ip = ''192.168.137.123''"

definition try_body :: "stmt list" where
  "try_body =
     [Call (Connect device_ip),
      Logger INFO ''Connected to device'',
      Call (SetGain 10),
      Call (SetAscanAveraging 1),
      Call (SetPulseRepetitionRate 3),
      Call (SetQuadro8x4Transmitter 0),
      Call (SetSingle8x4Transmitter 0),
      Call Subscribe,
      Call StartAscanSingleTransmitter,
      Logger INFO ''Started data acquisition...'',
      Call (Sleep 5),
      Call StopAcquisition,
      Logger INFO ''Stopped data acquisition'',
      Call Unsubscribe]"

text \<open>
  The handler of lines 125 and 126, registered by \<open>Subscribe\<close>: the log line of one
  delivery, from the printed forms of \<open>length\<close> and \<open>timestamp\<close>.
\<close>

definition on_data_received :: "string \<Rightarrow> string \<Rightarrow> event" where
  "on_data_received length_str timestamp_str =
     Log INFO (''Received '' @ length_str @ '' samples at '' @ timestamp_str)"

definition finally_body :: "stmt list" where
  "finally_body = [Call Disconnect, Logger INFO ''Disconnected from device'']"

text \<open>Lines 112 to 154: the \<open>try\<close> statement.\<close>

definition connect_configure_acquire :: "world \<Rightarrow> bool comp" where
  "connect_configure_acquire w =
     try_except_finally
       (bind (exec w try_body) (\<lambda>_. ret True))
       (\<lambda>e. if is_Exception e
            then Some (bind (logger ERROR (''Error during operation: '' @ str_exc e)) (\<lambda>_.
                       ret False))
            else None)
       (exec w finally_body)"

definition simple_example :: "world \<Rightarrow> bool comp" where
  "simple_example w =
     bind (call w (IdentifyDevice device_ip)) (\<lambda>_.
     if \<not> identify_result w device_ip
     then bind (logger ERROR (''Cannot identify device at '' @ device_ip)) (\<lambda>_. ret False)
     else
       bind (call w (GetDeviceInfo device_ip)) (\<lambda>_.
       bind (logger INFO (''Connected to device: Serial='' @ fst (device_info w device_ip)
               @ '', MAC='' @ snd (device_info w device_ip))) (\<lambda>_.
       bind (call w NewSDK) (\<lambda>_.
       bind (has_feature w ''SetGain'') (\<lambda>available.
       if \<not> available
       then bind (logger ERROR
                    ''Required feature 'SetGain' is not available in this SDK version.'')
              (\<lambda>_. ret False)
       else connect_configure_acquire w)))))"

subsection \<open>The module body (lines 69 to 78 and 156 to 163)\<close>

text \<open>
  The module body after the imports and the logging setup of lines 1 to 11.
  \<open>ImportSDK\<close> is the \<open>from A10x_SDK import\<close> of line 73, \<open>is_main\<close> the test
  \<open>__name__ == "__main__"\<close>.
\<close>

definition sdk_folder :: string where
  "sdk_folder = ''..'' @ [CHR 0x5C] @ ''sdk''"

text \<open>\<open>not sdk_version\<close>: \<open>None\<close> and the empty string are false.\<close>

definition falsy :: "string option \<Rightarrow> bool" where
  "falsy v = (case v of None \<Rightarrow> True | Some s \<Rightarrow> s = [])"

definition main_section :: "world \<Rightarrow> unit comp" where
  "main_section w =
     (if is_main w
      then bind (logger INFO ''Starting simple A10x SDK example...'') (\<lambda>_.
           bind (simple_example w) (\<lambda>success.
           if success then logger INFO ''Example completed successfully!''
           else logger ERROR ''Example failed!''))
      else ret ())"

definition script :: "world \<Rightarrow> unit comp" where
  "script w =
     bind (load_sdk_dlls w sdk_folder) (\<lambda>_.
     bind (call w ImportSDK) (\<lambda>_.
     bind (check_sdk_version w ''1.0.0'') (\<lambda>sdk_version.
     bind (if falsy sdk_version
           then logger WARNING ''Cannot verify SDK version. Proceeding with caution...''
           else ret ()) (\<lambda>_.
     main_section w))))"

section \<open>Observations on a run\<close>

text \<open>The external calls of a trace, in the order they were invoked.\<close>

fun invoked :: "event list \<Rightarrow> op list" where
  "invoked [] = []"
| "invoked (Log l m # t) = invoked t"
| "invoked (Invoke c # t) = c # invoked t"

text \<open>
  \<open>simple_example\<close> reaches the feature check of line 103 when the device was identified and
  none of the three calls before the check raised; it enters the \<open>try\<close> statement of
  line 112 when, in addition, the lookup of \<open>SetGain\<close> succeeded.
\<close>

definition reaches_feature_check :: "world \<Rightarrow> bool" where
  "reaches_feature_check w =
     (fails w (IdentifyDevice device_ip) = None \<and> identify_result w device_ip \<and>
      fails w (GetDeviceInfo device_ip) = None \<and> fails w NewSDK = None)"

definition enters_try :: "world \<Rightarrow> bool" where
  "enters_try w = (reaches_feature_check w \<and> fails w (GetAttr ''SetGain'') = None)"

text \<open>The events of lines 91 to 103, when none of these lines raises or returns.\<close>

definition preamble :: "world \<Rightarrow> event list" where
  "preamble w =
     [Invoke (IdentifyDevice device_ip), Invoke (GetDeviceInfo device_ip),
      Log INFO (''Connected to device: Serial='' @ fst (device_info w device_ip)
        @ '', MAC='' @ snd (device_info w device_ip)),
      Invoke NewSDK, Invoke (GetAttr ''SetGain'')]"

text \<open>
  The comparison the script does not make: versions compared number by number, the
  major number first.
\<close>

definition numeric_version_less :: "int \<times> int \<times> int \<Rightarrow> int \<times> int \<times> int \<Rightarrow> bool" where
  "numeric_version_less a b =
     (case a of (a1, a2, a3) \<Rightarrow> case b of (b1, b2, b3) \<Rightarrow>
        a1 < b1 \<or> (a1 = b1 \<and> (a2 < b2 \<or> (a2 = b2 \<and> a3 < b3))))"

section \<open>Example worlds\<close>

text \<open>
  A POSIX-like file system in which every path exists, a device that answers, and an SDK
  of version 1.2.3 in which no call raises. The other worlds differ from it in one place.
\<close>

definition happy_world :: world where
  "happy_world =
     \<lparr>isabs = (\<lambda>p. case p of [] \<Rightarrow> False | c # _ \<Rightarrow> c = CHR ''/''),
      path_join = (\<lambda>a b. a @ ''/'' @ b),
      path_exists = (\<lambda>_. True),
      script_dir = ''/opt/example'',
      fails = (\<lambda>_. None),
      assembly_version = (1, 2, 3),
      identify_result = (\<lambda>_. True),
      device_info = (\<lambda>_. (''SN1'', ''00:11'')),
      is_main = True\<rparr>"

definition folder_missing :: world where
  "folder_missing = happy_world\<lparr>path_exists := (\<lambda>_. False)\<rparr>"

definition old_sdk :: world where
  "old_sdk = happy_world\<lparr>assembly_version := (0, 9, 5)\<rparr>"

definition sdk_10 :: world where
  "sdk_10 = happy_world\<lparr>assembly_version := (10, 0, 0)\<rparr>"

definition unidentified :: world where
  "unidentified = happy_world\<lparr>identify_result := (\<lambda>_. False)\<rparr>"

definition feature_missing :: world where
  "feature_missing =
     happy_world\<lparr>fails := (\<lambda>c. if c = GetAttr ''SetGain''
                                then Some (Exc AttributeError ''SetGain'') else None)\<rparr>"

definition connect_fails :: world where
  "connect_fails =
     happy_world\<lparr>fails := (\<lambda>c. if c = Connect device_ip
                                then Some (Exc Exception ''connection timed out'') else None)\<rparr>"

definition connect_and_disconnect_fail :: world where
  "connect_and_disconnect_fail =
     happy_world\<lparr>fails := (\<lambda>c. if c = Connect device_ip
                                then Some (Exc Exception ''connection timed out'')
                                else if c = Disconnect
                                then Some (Exc Exception ''not connected'') else None)\<rparr>"

definition sleep_interrupted :: world where
  "sleep_interrupted =
     happy_world\<lparr>fails := (\<lambda>c. if c = Sleep 5 then Some (Exc KeyboardInterrupt []) else None)\<rparr>"

definition import_system_fails :: world where
  "import_system_fails =
     happy_world\<lparr>fails := (\<lambda>c. if c = ImportSystem
                                then Some (Exc Exception ''No module named System'')
                                else None)\<rparr>"

definition reflection_interrupted :: world where
  "reflection_interrupted =
     happy_world\<lparr>fails := (\<lambda>c. if c = GetAssemblyVersion
                                then Some (Exc KeyboardInterrupt []) else None)\<rparr>"

definition reflection_fails :: world where
  "reflection_fails =
     happy_world\<lparr>fails := (\<lambda>c. if c = GetAssemblyVersion
                                then Some (Exc Exception ''assembly not loaded'') else None)\<rparr>"

subsection \<open>A Windows file system\<close>

text \<open>
  \<open>os.path\<close> on Windows (\<open>ntpath\<close>) for paths with or without a drive letter; UNC
  paths are left out. \<open>nt_splitroot\<close> splits a path into drive, root and rest;
  \<open>nt_isabs\<close> holds of a path with a drive and a root; \<open>nt_join\<close> is
  \<open>ntpath.join\<close> of two paths: a second path with a root, or on another drive,
  replaces the first.
\<close>

definition is_sep :: "char \<Rightarrow> bool" where
  "is_sep c = (c = CHR 0x5C \<or> c = CHR ''/'')"

fun nt_splitroot :: "string \<Rightarrow> string \<times> string \<times> string" where
  "nt_splitroot [] = ([], [], [])"
| "nt_splitroot [c] = (if is_sep c then ([], [c], []) else ([], [], [c]))"
| "nt_splitroot (c # d # r) =
     (if d = CHR '':''
      then (case r of
              [] \<Rightarrow> ([c, d], [], [])
            | s # r' \<Rightarrow> if is_sep s then ([c, d], [s], r') else ([c, d], [], r))
      else if is_sep c then ([], [c], d # r)
      else ([], [], c # d # r))"

definition nt_isabs :: "string \<Rightarrow> bool" where
  "nt_isabs p =
     (case nt_splitroot p of (drive, root, rest) \<Rightarrow>
        if drive = [] then False else if root = [] then False else True)"

definition lower_char :: "char \<Rightarrow> char" where
  "lower_char c =
     (if 65 \<le> (of_char c :: nat) \<and> (of_char c :: nat) \<le> 90
      then char_of (of_char c + 32 :: nat)
      else c)"

definition nt_join :: "string \<Rightarrow> string \<Rightarrow> string" where
  "nt_join path p =
     (case nt_splitroot path of (result_drive, result_root, result_path) \<Rightarrow>
      case nt_splitroot p of (p_drive, p_root, p_path) \<Rightarrow>
        if p_root = []
        then (if p_drive = [] then
                result_drive @ result_root
                @ (if result_path = [] then result_path
                   else if is_sep (last result_path) then result_path
                   else result_path @ [CHR 0x5C])
                @ p_path
              else if map lower_char p_drive = map lower_char result_drive then
                p_drive @ result_root
                @ (if result_path = [] then result_path
                   else if is_sep (last result_path) then result_path
                   else result_path @ [CHR 0x5C])
                @ p_path
              else p_drive @ p_root @ p_path)
        else (if p_drive = [] then result_drive else p_drive) @ p_root @ p_path)"

text \<open>The script in \<open>D:\proj\PythonExample\<close>, every path present, no call raising.\<close>

definition windows_world :: world where
  "windows_world =
     \<lparr>isabs = nt_isabs,
      path_join = nt_join,
      path_exists = (\<lambda>_. True),
      script_dir = ''D:'' @ [CHR 0x5C] @ ''proj'' @ [CHR 0x5C] @ ''PythonExample'',
      fails = (\<lambda>_. None),
      assembly_version = (1, 2, 3),
      identify_result = (\<lambda>_. True),
      device_info = (\<lambda>_. (''SN1'', ''00:11'')),
      is_main = True\<rparr>"

section \<open>Outcome and trace of the combinators\<close>

lemma bind_Return: "bind (Return x, t) f = (fst (f x), t @ snd (f x))"
  by (simp add: bind_def split: prod.splits)

lemma bind_Raise: "bind (Raise e, t) f = (Raise e, t)"
  by (simp add: bind_def)

lemma fst_bind:
  "fst (bind m f) = (case fst m of Return x \<Rightarrow> fst (f x) | Raise e \<Rightarrow> Raise e)"
  by (cases m; cases "fst m") (auto simp: bind_def split: prod.splits outcome.splits)

lemma snd_bind:
  "snd (bind m f) = (case fst m of Return x \<Rightarrow> snd m @ snd (f x) | Raise e \<Rightarrow> snd m)"
  by (cases m; cases "fst m") (auto simp: bind_def split: prod.splits outcome.splits)

lemma fst_logger: "fst (logger l m) = Return ()"
  by (simp add: logger_def)

lemma snd_logger: "snd (logger l m) = [Log l m]"
  by (simp add: logger_def)

lemma fst_call: "fst (call w c) = (case fails w c of None \<Rightarrow> Return () | Some e \<Rightarrow> Raise e)"
  by (simp add: call_def split: option.splits)

lemma snd_call: "snd (call w c) = [Invoke c]"
  by (simp add: call_def split: option.splits)

lemma fst_try_except_finally:
  "fst (try_except_finally body handler final) =
     (case fst final of
        Raise d \<Rightarrow> Raise d
      | Return u \<Rightarrow>
         (case fst body of
            Return x \<Rightarrow> Return x
          | Raise e \<Rightarrow> (case handler e of None \<Rightarrow> Raise e | Some h \<Rightarrow> fst h)))"
  by (cases body; cases "fst body"; cases final; cases "fst final")
     (auto simp: try_except_finally_def split: option.splits)

lemma snd_try_except_finally:
  "snd (try_except_finally body handler final) =
     snd body
     @ (case fst body of
          Return x \<Rightarrow> []
        | Raise e \<Rightarrow> (case handler e of None \<Rightarrow> [] | Some h \<Rightarrow> snd h))
     @ snd final"
  by (cases body; cases "fst body"; cases final; cases "fst final")
     (auto simp: try_except_finally_def split: option.splits)

lemma invoked_append: "invoked (t @ u) = invoked t @ invoked u"
  by (induction t rule: invoked.induct) simp_all

text \<open>A block invokes only the calls written in it.\<close>

lemma invoked_exec: "set (invoked (snd (exec w ss))) \<subseteq> {c. Call c \<in> set ss}"
proof (induction w ss rule: exec.induct)
  case (1 w)
  show ?case by (simp add: ret_def)
next
  case (2 w l m ss)
  then show ?case
    by (auto simp: snd_bind fst_logger snd_logger invoked_append)
next
  case (3 w c ss)
  then show ?case
    by (auto simp: snd_bind fst_call snd_call invoked_append
        split: option.splits outcome.splits)
qed

section \<open>The try statement of simple_example\<close>

lemma Disconnect_not_in_try: "Disconnect \<notin> set (invoked (snd (exec w try_body)))"
proof -
  have "Call Disconnect \<notin> set try_body"
    by (simp add: try_body_def)
  with invoked_exec [of w try_body] show ?thesis by blast
qed

lemma fst_finally:
  "fst (exec w finally_body) =
     (case fails w Disconnect of None \<Rightarrow> Return () | Some d \<Rightarrow> Raise d)"
  by (simp add: finally_body_def fst_bind fst_call fst_logger ret_def split: option.splits)

lemma snd_finally:
  "snd (exec w finally_body) =
     Invoke Disconnect #
       (if fails w Disconnect = None then [Log INFO ''Disconnected from device''] else [])"
  by (simp add: finally_body_def snd_bind fst_call snd_call snd_logger fst_logger ret_def
      split: option.splits)

lemma invoked_cca:
  "invoked (snd (connect_configure_acquire w)) =
     invoked (snd (exec w try_body)) @ [Disconnect]"
  by (simp add: connect_configure_acquire_def snd_try_except_finally snd_bind invoked_append
      snd_finally snd_logger ret_def fst_bind split: outcome.splits)

lemma fst_cca_raise:
  assumes "fst (exec w try_body) = Raise e"
  shows "fst (connect_configure_acquire w) =
           (case fails w Disconnect of
              Some d \<Rightarrow> Raise d
            | None \<Rightarrow> if is_Exception e then Return False else Raise e)"
  using assms
  by (simp add: connect_configure_acquire_def fst_try_except_finally fst_finally fst_bind
      fst_logger ret_def split: option.splits)

lemma snd_cca_raise:
  assumes "fst (exec w try_body) = Raise e"
  shows "snd (connect_configure_acquire w) =
           snd (exec w try_body)
           @ (if is_Exception e
              then [Log ERROR (''Error during operation: '' @ str_exc e)] else [])
           @ Invoke Disconnect #
             (if fails w Disconnect = None then [Log INFO ''Disconnected from device'']
              else [])"
  using assms
  by (simp add: connect_configure_acquire_def snd_try_except_finally snd_finally snd_bind
      fst_bind fst_logger snd_logger ret_def)

lemma simple_example_enters:
  assumes "enters_try w"
  shows "simple_example w =
           (fst (connect_configure_acquire w), preamble w @ snd (connect_configure_acquire w))"
  using assms
  by (simp add: enters_try_def reaches_feature_check_def simple_example_def has_feature_def
      preamble_def call_def bind_Return logger_def ret_def try_except_def
      try_except_finally_def)

lemma invoked_preamble:
  "invoked (preamble w) =
     [IdentifyDevice device_ip, GetDeviceInfo device_ip, NewSDK, GetAttr ''SetGain'']"
  by (simp add: preamble_def)

lemma invoked_without_try:
  assumes "\<not> enters_try w"
  shows "set (invoked (snd (simple_example w))) \<subseteq>
           {IdentifyDevice device_ip, GetDeviceInfo device_ip, NewSDK, GetAttr ''SetGain''}"
  using assms
  by (auto simp add: enters_try_def reaches_feature_check_def simple_example_def
      has_feature_def call_def bind_Return bind_Raise logger_def ret_def try_except_def
      try_except_finally_def split: option.splits if_splits)

lemma disconnect_once:
  assumes "enters_try w"
  shows "count_list (invoked (snd (simple_example w))) Disconnect = 1"
  using Disconnect_not_in_try [of w]
  by (simp add: simple_example_enters [OF assms] invoked_append invoked_cca invoked_preamble)

lemma check_sdk_version_below:
  assumes "fails w ImportSystem = None" and "fails w GetAssemblyVersion = None"
    and "str_lt (version_str (assembly_version w)) required_version"
  shows "check_sdk_version w required_version =
           (Return None,
            [Invoke ImportSystem, Invoke GetAssemblyVersion,
             Log INFO (''A10x SDK Version: '' @ version_str (assembly_version w)),
             Log ERROR (''Version check failed: SDK version ''
               @ version_str (assembly_version w) @ '' is below required ''
               @ required_version)])"
  using assms
  by (simp add: check_sdk_version_def Let_def call_def logger_def ret_def raise_def
      bind_Return bind_Raise try_except_def try_except_finally_def is_Exception_def)

lemma str_int_10: "str_int 10 = ''10''"
  by code_simp

lemma str_int_9: "str_int 9 = ''9''"
  by code_simp

lemma version_10_lt_9: "str_lt (version_str (10, minor, build)) (version_str (9, m, b))"
  by (simp add: version_str_def str_int_10 str_int_9)

section \<open>The claims\<close>

subsection \<open>C1: cleanup after an exception in the try block\<close>

text \<open>
  Claim C1. For every exception raised at any point inside the connect/configure/acquire
  \<open>try\<close> block of \<open>simple_example\<close>, \<open>Disconnect\<close> is invoked exactly once before
  \<open>simple_example\<close> ends: the trace is the events up to the raising statement, the
  error line if the exception is caught, and then the single \<open>Disconnect\<close> of the
  \<open>finally\<close> step. This holds for an exception of any class, caught or not.
\<close>

theorem disconnect_once_on_exception:
  assumes "enters_try w" and "fst (exec w try_body) = Raise e"
  shows "count_list (invoked (snd (simple_example w))) Disconnect = 1 \<and>
         snd (simple_example w) =
           preamble w @ snd (exec w try_body)
           @ (if is_Exception e
              then [Log ERROR (''Error during operation: '' @ str_exc e)] else [])
           @ Invoke Disconnect #
             (if fails w Disconnect = None then [Log INFO ''Disconnected from device'']
              else [])"
proof -
  have "count_list (invoked (snd (simple_example w))) Disconnect = 1"
    using disconnect_once [OF assms(1)] .
  moreover have "snd (simple_example w) = preamble w @ snd (connect_configure_acquire w)"
    by (simp add: simple_example_enters [OF assms(1)])
  ultimately show ?thesis
    by (simp add: snd_cca_raise [OF assms(2)])
qed

text \<open>An interrupt during the five-second wait: one \<open>Disconnect\<close>, the interrupt propagates.\<close>

theorem disconnect_once_on_exception_witness:
  "enters_try sleep_interrupted \<and>
   fst (exec sleep_interrupted try_body) = Raise (Exc KeyboardInterrupt []) \<and>
   count_list (invoked (snd (simple_example sleep_interrupted))) Disconnect = 1 \<and>
   fst (simple_example sleep_interrupted) = Raise (Exc KeyboardInterrupt [])"
proof -
  have h1: "enters_try sleep_interrupted"
    by (simp add: enters_try_def reaches_feature_check_def sleep_interrupted_def
        happy_world_def)
  have h2: "fst (exec sleep_interrupted try_body) = Raise (Exc KeyboardInterrupt [])"
    by (simp add: sleep_interrupted_def happy_world_def try_body_def bind_def call_def
        logger_def ret_def)
  have h3: "fst (simple_example sleep_interrupted) = Raise (Exc KeyboardInterrupt [])"
    by (simp add: simple_example_enters [OF h1] fst_cca_raise [OF h2] is_Exception_def)
       (simp add: sleep_interrupted_def happy_world_def)
  from disconnect_once_on_exception [OF h1 h2, THEN conjunct1] h1 h2 h3 show ?thesis
    by simp
qed

subsection \<open>C2: a missing dependency folder\<close>

text \<open>
  Claim C2. If the resolved SDK dependency folder does not exist, \<open>load_sdk_dlls\<close> raises
  a \<open>FileNotFoundError\<close>, and no external call (no \<open>AddReference\<close>, no SDK symbol) is
  made before that failure; the module body, which loads the folder of line 69 first,
  ends with the same failure before any call.
\<close>

theorem load_sdk_dlls_missing_folder:
  assumes "\<not> path_exists w (resolved_path w p)"
  shows "fst (load_sdk_dlls w p) =
           Raise (Exc FileNotFoundError
                    (''Dependencies directory not found: '' @ resolved_path w p)) \<and>
         invoked (snd (load_sdk_dlls w p)) = [] \<and>
         (p = sdk_folder \<longrightarrow>
            fst (script w) =
              Raise (Exc FileNotFoundError
                       (''Dependencies directory not found: '' @ resolved_path w p)) \<and>
            invoked (snd (script w)) = [])"
proof -
  have l: "fst (load_sdk_dlls w p) =
             Raise (Exc FileNotFoundError
                      (''Dependencies directory not found: '' @ resolved_path w p))"
    using assms
    by (simp add: load_sdk_dlls_def Let_def fst_bind fst_logger ret_def raise_def)
  have t: "invoked (snd (load_sdk_dlls w p)) = []"
    using assms
    by (simp add: load_sdk_dlls_def Let_def snd_bind fst_logger snd_logger ret_def raise_def
        invoked_append)
  have "fst (script w) = fst (load_sdk_dlls w p)" and "snd (script w) = snd (load_sdk_dlls w p)"
    if "p = sdk_folder"
    using that l by (simp_all add: script_def fst_bind snd_bind)
  with l t show ?thesis by auto
qed

theorem load_sdk_dlls_missing_folder_witness:
  "\<not> path_exists folder_missing (resolved_path folder_missing sdk_folder) \<and>
   script folder_missing =
     (Raise (Exc FileNotFoundError
        (''Dependencies directory not found: /opt/example/..'' @ [CHR 0x5C] @ ''sdk'')),
      [Log WARNING (''SDK folder path is relative: ..'' @ [CHR 0x5C]
         @ ''sdk. Trying to resolve it relative to the current file.''),
       Log ERROR (''Dependencies directory does not exist: /opt/example/..'' @ [CHR 0x5C]
         @ ''sdk'')]) \<and>
   invoked (snd (script folder_missing)) = []"
proof -
  have h: "\<not> path_exists folder_missing (resolved_path folder_missing sdk_folder)"
    by (simp add: folder_missing_def happy_world_def)
  have s: "script folder_missing =
     (Raise (Exc FileNotFoundError
        (''Dependencies directory not found: /opt/example/..'' @ [CHR 0x5C] @ ''sdk'')),
      [Log WARNING (''SDK folder path is relative: ..'' @ [CHR 0x5C]
         @ ''sdk. Trying to resolve it relative to the current file.''),
       Log ERROR (''Dependencies directory does not exist: /opt/example/..'' @ [CHR 0x5C]
         @ ''sdk'')])"
    by (simp add: script_def load_sdk_dlls_def Let_def resolved_path_def sdk_folder_def
        folder_missing_def happy_world_def bind_def logger_def raise_def)
  from load_sdk_dlls_missing_folder [OF h] h s show ?thesis by simp
qed

subsection \<open>C3: a version below the required minimum\<close>

text \<open>
  Claim C3. For every SDK version string that compares lexically less than the required
  minimum, \<open>check_sdk_version\<close> logs the failure and returns \<open>None\<close>; and the module body
  does not stop there: it logs a warning and goes on to the main section.
\<close>

theorem check_sdk_version_below_minimum:
  assumes "fails w ImportSystem = None" and "fails w GetAssemblyVersion = None"
    and "str_lt (version_str (assembly_version w)) required_version"
  shows "check_sdk_version w required_version =
           (Return None,
            [Invoke ImportSystem, Invoke GetAssemblyVersion,
             Log INFO (''A10x SDK Version: '' @ version_str (assembly_version w)),
             Log ERROR (''Version check failed: SDK version ''
               @ version_str (assembly_version w) @ '' is below required ''
               @ required_version)]) \<and>
         (required_version = ''1.0.0'' \<and> fst (load_sdk_dlls w sdk_folder) = Return () \<and>
          fails w ImportSDK = None \<longrightarrow>
            script w =
              (fst (main_section w),
               snd (load_sdk_dlls w sdk_folder) @ [Invoke ImportSDK]
               @ snd (check_sdk_version w ''1.0.0'')
               @ [Log WARNING ''Cannot verify SDK version. Proceeding with caution...'']
               @ snd (main_section w)))"
proof -
  note c = check_sdk_version_below [OF assms]
  have s: "script w =
          (fst (main_section w),
           snd (load_sdk_dlls w sdk_folder) @ [Invoke ImportSDK]
           @ snd (check_sdk_version w ''1.0.0'')
           @ [Log WARNING ''Cannot verify SDK version. Proceeding with caution...'']
           @ snd (main_section w))"
    if r: "required_version = ''1.0.0''" and l: "fst (load_sdk_dlls w sdk_folder) = Return ()"
      and i: "fails w ImportSDK = None"
  proof -
    have f: "fst (check_sdk_version w ''1.0.0'') = Return None"
      using c r by simp
    show ?thesis
      by (rule prod_eqI)
         (simp_all add: script_def fst_bind snd_bind l i f fst_call snd_call falsy_def
           fst_logger snd_logger)
  qed
  show ?thesis
  proof (intro conjI impI)
    show "check_sdk_version w required_version =
           (Return None,
            [Invoke ImportSystem, Invoke GetAssemblyVersion,
             Log INFO (''A10x SDK Version: '' @ version_str (assembly_version w)),
             Log ERROR (''Version check failed: SDK version ''
               @ version_str (assembly_version w) @ '' is below required ''
               @ required_version)])"
      by (rule c)
  next
    assume "required_version = ''1.0.0'' \<and> fst (load_sdk_dlls w sdk_folder) = Return () \<and>
      fails w ImportSDK = None"
    then show "script w =
          (fst (main_section w),
           snd (load_sdk_dlls w sdk_folder) @ [Invoke ImportSDK]
           @ snd (check_sdk_version w ''1.0.0'')
           @ [Log WARNING ''Cannot verify SDK version. Proceeding with caution...'']
           @ snd (main_section w))"
      by (intro s) simp_all
  qed
qed

theorem check_sdk_version_below_minimum_witness:
  "fails old_sdk ImportSystem = None \<and> fails old_sdk GetAssemblyVersion = None \<and>
   str_lt (version_str (assembly_version old_sdk)) ''1.0.0'' \<and>
   fst (load_sdk_dlls old_sdk sdk_folder) = Return () \<and> fails old_sdk ImportSDK = None \<and>
   check_sdk_version old_sdk ''1.0.0'' =
     (Return None,
      [Invoke ImportSystem, Invoke GetAssemblyVersion,
       Log INFO ''A10x SDK Version: 0.9.5'',
       Log ERROR ''Version check failed: SDK version 0.9.5 is below required 1.0.0'']) \<and>
   fst (script old_sdk) = fst (main_section old_sdk)"
proof -
  have v: "version_str (assembly_version old_sdk) = ''0.9.5''"
    by code_simp
  have h1: "fails old_sdk ImportSystem = None"
    by (simp add: old_sdk_def happy_world_def)
  have h2: "fails old_sdk GetAssemblyVersion = None"
    by (simp add: old_sdk_def happy_world_def)
  have h3: "str_lt (version_str (assembly_version old_sdk)) ''1.0.0''"
    by (simp add: v)
  have h4: "fails old_sdk ImportSDK = None"
    by (simp add: old_sdk_def happy_world_def)
  have h5: "fst (load_sdk_dlls old_sdk sdk_folder) = Return ()"
    by (simp add: load_sdk_dlls_def Let_def old_sdk_def happy_world_def bind_def logger_def
        call_def ret_def)
  from check_sdk_version_below_minimum [OF h1 h2 h3] h1 h2 h3 h4 h5 v show ?thesis
    by simp
qed

subsection \<open>C4: a feature absent from the SDK surface\<close>

text \<open>
  Claim C4. For every feature name whose lookup on \<open>A1052SDK\<close> raises \<open>AttributeError\<close>,
  \<open>has_feature\<close> returns \<open>False\<close>. When the required feature \<open>SetGain\<close> is absent,
  \<open>simple_example\<close> never invokes \<open>Connect\<close>; and once it reaches the feature check it
  logs the error of line 104 and returns \<open>False\<close>.
\<close>

theorem has_feature_absent:
  assumes "fails w (GetAttr feature_name) = Some e" and "is_AttributeError e"
  shows "has_feature w feature_name = (Return False, [Invoke (GetAttr feature_name)]) \<and>
         (feature_name = ''SetGain'' \<longrightarrow>
            (\<forall>ip. Connect ip \<notin> set (invoked (snd (simple_example w)))) \<and>
            (reaches_feature_check w \<longrightarrow>
               simple_example w =
                 (Return False,
                  preamble w @
                  [Log ERROR
                     ''Required feature 'SetGain' is not available in this SDK version.''])))"
proof -
  have h: "has_feature w feature_name = (Return False, [Invoke (GetAttr feature_name)])"
    using assms
    by (simp add: has_feature_def call_def bind_Raise try_except_def try_except_finally_def
        ret_def)
  have c: "\<forall>ip. Connect ip \<notin> set (invoked (snd (simple_example w)))"
    if "feature_name = ''SetGain''"
  proof -
    from that assms(1) have "\<not> enters_try w"
      by (simp add: enters_try_def)
    from invoked_without_try [OF this] show ?thesis by auto
  qed
  have r: "simple_example w =
             (Return False,
              preamble w @
              [Log ERROR ''Required feature 'SetGain' is not available in this SDK version.''])"
    if "feature_name = ''SetGain''" and "reaches_feature_check w"
    using that h
    by (simp add: reaches_feature_check_def simple_example_def call_def bind_Return logger_def
        ret_def preamble_def)
  from h c r show ?thesis by blast
qed

theorem has_feature_absent_witness:
  "fails feature_missing (GetAttr ''SetGain'') = Some (Exc AttributeError ''SetGain'') \<and>
   is_AttributeError (Exc AttributeError ''SetGain'') \<and>
   reaches_feature_check feature_missing \<and>
   has_feature feature_missing ''SetGain'' = (Return False, [Invoke (GetAttr ''SetGain'')]) \<and>
   simple_example feature_missing =
     (Return False,
      [Invoke (IdentifyDevice ''192.168.137.123''),
       Invoke (GetDeviceInfo ''192.168.137.123''),
       Log INFO ''Connected to device: Serial=SN1, MAC=00:11'',
       Invoke NewSDK, Invoke (GetAttr ''SetGain''),
       Log ERROR ''Required feature 'SetGain' is not available in this SDK version.''])"
proof -
  have h1: "fails feature_missing (GetAttr ''SetGain'') = Some (Exc AttributeError ''SetGain'')"
    by (simp add: feature_missing_def happy_world_def)
  have h2: "is_AttributeError (Exc AttributeError ''SetGain'')"
    by (simp add: is_AttributeError_def)
  have h3: "reaches_feature_check feature_missing"
    by (simp add: reaches_feature_check_def feature_missing_def happy_world_def)
  have p: "preamble feature_missing =
      [Invoke (IdentifyDevice ''192.168.137.123''),
       Invoke (GetDeviceInfo ''192.168.137.123''),
       Log INFO ''Connected to device: Serial=SN1, MAC=00:11'',
       Invoke NewSDK, Invoke (GetAttr ''SetGain'')]"
    by (simp add: preamble_def device_ip_def feature_missing_def happy_world_def)
  from has_feature_absent [OF h1 h2] h1 h2 h3 p show ?thesis by simp
qed

subsection \<open>C5: what becomes of an exception raised in the try block\<close>

text \<open>
  Claim C5, as the code has it. An exception raised during the connect/configure/acquire
  sequence that is an instance of \<open>Exception\<close> is caught and logged as an error, and
  \<open>simple_example\<close> returns \<open>False\<close> unless the \<open>Disconnect\<close> of the \<open>finally\<close> step
  raises, in which case that exception goes to the caller. An exception that is not an
  instance of \<open>Exception\<close> is not caught by line 147: it goes to the caller after the
  \<open>finally\<close> step.
\<close>

theorem exception_in_try_handled:
  assumes "enters_try w" and "fst (exec w try_body) = Raise e"
  shows "fst (simple_example w) =
           (case fails w Disconnect of
              Some d \<Rightarrow> Raise d
            | None \<Rightarrow> if is_Exception e then Return False else Raise e) \<and>
         (is_Exception e \<longrightarrow>
            Log ERROR (''Error during operation: '' @ str_exc e)
              \<in> set (snd (simple_example w)))"
  by (simp add: simple_example_enters [OF assms(1)] fst_cca_raise [OF assms(2)]
      snd_cca_raise [OF assms(2)])

theorem exception_in_try_handled_witness:
  "enters_try connect_fails \<and>
   fst (exec connect_fails try_body) = Raise (Exc Exception ''connection timed out'') \<and>
   is_Exception (Exc Exception ''connection timed out'') \<and>
   fst (simple_example connect_fails) = Return False \<and>
   Log ERROR ''Error during operation: connection timed out''
     \<in> set (snd (simple_example connect_fails))"
proof -
  have h1: "enters_try connect_fails"
    by (simp add: enters_try_def reaches_feature_check_def connect_fails_def happy_world_def
        device_ip_def)
  have h2: "fst (exec connect_fails try_body) = Raise (Exc Exception ''connection timed out'')"
    by (simp add: connect_fails_def happy_world_def try_body_def bind_def call_def)
  have h3: "is_Exception (Exc Exception ''connection timed out'')"
    by (simp add: is_Exception_def)
  have h4: "fails connect_fails Disconnect = None"
    by (simp add: connect_fails_def happy_world_def)
  from exception_in_try_handled [OF h1 h2] h1 h2 h3 h4 show ?thesis by simp
qed

text \<open>
  The claim as written (every exception is caught and makes \<open>simple_example\<close> return
  \<open>False\<close>, none reaches the caller) fails in two runs. In the first, \<open>Connect\<close> raises
  an \<open>Exception\<close>, which is caught and logged, and then \<open>Disconnect\<close> raises in the
  \<open>finally\<close> step: the caller gets that exception, not \<open>False\<close>. In the second, a
  \<open>KeyboardInterrupt\<close> arrives during the five-second wait: nothing is logged as an
  error, \<open>Disconnect\<close> runs, and the interrupt reaches the caller.
\<close>

theorem exception_in_try_counterexample:
  "fst (exec connect_and_disconnect_fail try_body) =
     Raise (Exc Exception ''connection timed out'') \<and>
   fst (simple_example connect_and_disconnect_fail) \<noteq> Return False \<and>
   simple_example connect_and_disconnect_fail =
     (Raise (Exc Exception ''not connected''),
      [Invoke (IdentifyDevice ''192.168.137.123''),
       Invoke (GetDeviceInfo ''192.168.137.123''),
       Log INFO ''Connected to device: Serial=SN1, MAC=00:11'',
       Invoke NewSDK, Invoke (GetAttr ''SetGain''),
       Invoke (Connect ''192.168.137.123''),
       Log ERROR ''Error during operation: connection timed out'',
       Invoke Disconnect]) \<and>
   simple_example sleep_interrupted =
     (Raise (Exc KeyboardInterrupt []),
      [Invoke (IdentifyDevice ''192.168.137.123''),
       Invoke (GetDeviceInfo ''192.168.137.123''),
       Log INFO ''Connected to device: Serial=SN1, MAC=00:11'',
       Invoke NewSDK, Invoke (GetAttr ''SetGain''),
       Invoke (Connect ''192.168.137.123''),
       Log INFO ''Connected to device'',
       Invoke (SetGain 10), Invoke (SetAscanAveraging 1), Invoke (SetPulseRepetitionRate 3),
       Invoke (SetQuadro8x4Transmitter 0), Invoke (SetSingle8x4Transmitter 0),
       Invoke Subscribe, Invoke StartAscanSingleTransmitter,
       Log INFO ''Started data acquisition...'',
       Invoke (Sleep 5),
       Invoke Disconnect,
       Log INFO ''Disconnected from device''])"
  by (simp add: simple_example_def connect_configure_acquire_def has_feature_def
      try_except_def try_except_finally_def try_body_def finally_body_def device_ip_def
      connect_and_disconnect_fail_def sleep_interrupted_def happy_world_def
      bind_def call_def logger_def ret_def is_Exception_def)

subsection \<open>C6: which paths reach the Disconnect of the finally step\<close>

text \<open>
  Claim C6, as the code has it. \<open>Disconnect\<close> is attempted, exactly once, on every path
  of \<open>simple_example\<close> that enters the \<open>try\<close> statement of line 112, whatever happens
  inside it. On every other path (the device is not identified, the required feature is
  missing, or a call before the \<open>try\<close> statement raises) \<open>simple_example\<close> ends without
  invoking \<open>Disconnect\<close>.
\<close>

theorem disconnect_iff_try_entered:
  "count_list (invoked (snd (simple_example w))) Disconnect = (if enters_try w then 1 else 0)"
proof (cases "enters_try w")
  case True
  with disconnect_once [OF True] show ?thesis by simp
next
  case False
  from invoked_without_try [OF False]
  have "Disconnect \<notin> set (invoked (snd (simple_example w)))"
    by auto
  with False show ?thesis by simp
qed

text \<open>
  The claim as written names the device-identification failure and the missing feature
  among the paths that end with a \<open>Disconnect\<close>. Both return \<open>False\<close> at lines 93 and
  105, before the \<open>try\<close> statement, and their traces hold no \<open>Disconnect\<close>.
\<close>

theorem early_return_counterexample:
  "count_list (invoked (snd (simple_example unidentified))) Disconnect = 0 \<and>
   count_list (invoked (snd (simple_example feature_missing))) Disconnect = 0 \<and>
   simple_example unidentified =
     (Return False,
      [Invoke (IdentifyDevice ''192.168.137.123''),
       Log ERROR ''Cannot identify device at 192.168.137.123'']) \<and>
   simple_example feature_missing =
     (Return False,
      [Invoke (IdentifyDevice ''192.168.137.123''),
       Invoke (GetDeviceInfo ''192.168.137.123''),
       Log INFO ''Connected to device: Serial=SN1, MAC=00:11'',
       Invoke NewSDK, Invoke (GetAttr ''SetGain''),
       Log ERROR ''Required feature 'SetGain' is not available in this SDK version.''])"
  by (simp add: simple_example_def has_feature_def try_except_def try_except_finally_def
      device_ip_def unidentified_def feature_missing_def happy_world_def
      bind_def call_def logger_def ret_def is_AttributeError_def)

subsection \<open>C7: the version comparison is lexical\<close>

text \<open>
  Claim C7. The version check compares strings lexically, not number by number. Once a
  version string has been obtained, \<open>check_sdk_version\<close> logs the below-minimum error and
  returns \<open>None\<close> exactly when the version string is lexically below the required one,
  and returns the version string otherwise. So an SDK of version 10.x.y, numerically
  above every required minimum 9.m.b, is classified as below it.
\<close>

theorem lexical_version_comparison:
  assumes "fails w ImportSystem = None" and "fails w GetAssemblyVersion = None"
  shows "check_sdk_version w required_version =
           (if str_lt (version_str (assembly_version w)) required_version
            then (Return None,
                  [Invoke ImportSystem, Invoke GetAssemblyVersion,
                   Log INFO (''A10x SDK Version: '' @ version_str (assembly_version w)),
                   Log ERROR (''Version check failed: SDK version ''
                     @ version_str (assembly_version w) @ '' is below required ''
                     @ required_version)])
            else (Return (Some (version_str (assembly_version w))),
                  [Invoke ImportSystem, Invoke GetAssemblyVersion,
                   Log INFO (''A10x SDK Version: '' @ version_str (assembly_version w))])) \<and>
         (fst (check_sdk_version w required_version) = Return None) =
           str_lt (version_str (assembly_version w)) required_version \<and>
         (assembly_version w = (10, minor, build) \<longrightarrow>
            numeric_version_less (9, m, b) (assembly_version w) \<and>
            check_sdk_version w (version_str (9, m, b)) =
              (Return None,
               [Invoke ImportSystem, Invoke GetAssemblyVersion,
                Log INFO (''A10x SDK Version: '' @ version_str (10, minor, build)),
                Log ERROR (''Version check failed: SDK version ''
                  @ version_str (10, minor, build) @ '' is below required ''
                  @ version_str (9, m, b))]))"
proof -
  have c: "check_sdk_version w r =
           (if str_lt (version_str (assembly_version w)) r
            then (Return None,
                  [Invoke ImportSystem, Invoke GetAssemblyVersion,
                   Log INFO (''A10x SDK Version: '' @ version_str (assembly_version w)),
                   Log ERROR (''Version check failed: SDK version ''
                     @ version_str (assembly_version w) @ '' is below required '' @ r)])
            else (Return (Some (version_str (assembly_version w))),
                  [Invoke ImportSystem, Invoke GetAssemblyVersion,
                   Log INFO (''A10x SDK Version: '' @ version_str (assembly_version w))]))"
    for r
    using assms
    by (simp add: check_sdk_version_def Let_def call_def logger_def ret_def raise_def
        bind_Return bind_Raise try_except_def try_except_finally_def is_Exception_def)
  have e: "(fst (check_sdk_version w required_version) = Return None) =
             str_lt (version_str (assembly_version w)) required_version"
    by (simp add: c)
  have t: "numeric_version_less (9, m, b) (assembly_version w) \<and>
           check_sdk_version w (version_str (9, m, b)) =
             (Return None,
              [Invoke ImportSystem, Invoke GetAssemblyVersion,
               Log INFO (''A10x SDK Version: '' @ version_str (10, minor, build)),
               Log ERROR (''Version check failed: SDK version ''
                 @ version_str (10, minor, build) @ '' is below required ''
                 @ version_str (9, m, b))])"
    if v: "assembly_version w = (10, minor, build)"
  proof -
    have "str_lt (version_str (assembly_version w)) (version_str (9, m, b))"
      by (simp only: v version_10_lt_9)
    then show ?thesis
      by (simp add: c [of "version_str (9, m, b)"] v numeric_version_less_def)
  qed
  show ?thesis
  proof (intro conjI impI)
    show "check_sdk_version w required_version =
           (if str_lt (version_str (assembly_version w)) required_version
            then (Return None,
                  [Invoke ImportSystem, Invoke GetAssemblyVersion,
                   Log INFO (''A10x SDK Version: '' @ version_str (assembly_version w)),
                   Log ERROR (''Version check failed: SDK version ''
                     @ version_str (assembly_version w) @ '' is below required ''
                     @ required_version)])
            else (Return (Some (version_str (assembly_version w))),
                  [Invoke ImportSystem, Invoke GetAssemblyVersion,
                   Log INFO (''A10x SDK Version: '' @ version_str (assembly_version w))]))"
      by (rule c)
  next
    show "(fst (check_sdk_version w required_version) = Return None) =
            str_lt (version_str (assembly_version w)) required_version"
      by (rule e)
  next
    assume v: "assembly_version w = (10, minor, build)"
    from t [OF v] show "numeric_version_less (9, m, b) (assembly_version w)"
      by (rule conjunct1)
  next
    assume v: "assembly_version w = (10, minor, build)"
    from t [OF v] show "check_sdk_version w (version_str (9, m, b)) =
             (Return None,
              [Invoke ImportSystem, Invoke GetAssemblyVersion,
               Log INFO (''A10x SDK Version: '' @ version_str (10, minor, build)),
               Log ERROR (''Version check failed: SDK version ''
                 @ version_str (10, minor, build) @ '' is below required ''
                 @ version_str (9, m, b))])"
      by (rule conjunct2)
  qed
qed

text \<open>
  The example of the specification: 10.0.0 against the required 9.0.0, with the whole
  result of the check.
\<close>

theorem lexical_version_comparison_witness:
  "fails sdk_10 ImportSystem = None \<and> fails sdk_10 GetAssemblyVersion = None \<and>
   assembly_version sdk_10 = (10, 0, 0) \<and>
   version_str (10, 0, 0) = ''10.0.0'' \<and> version_str (9, 0, 0) = ''9.0.0'' \<and>
   numeric_version_less (9, 0, 0) (10, 0, 0) \<and>
   str_lt ''10.0.0'' ''9.0.0'' \<and>
   check_sdk_version sdk_10 ''9.0.0'' =
     (Return None,
      [Invoke ImportSystem, Invoke GetAssemblyVersion,
       Log INFO ''A10x SDK Version: 10.0.0'',
       Log ERROR ''Version check failed: SDK version 10.0.0 is below required 9.0.0''])"
proof -
  have h1: "fails sdk_10 ImportSystem = None"
    by (simp add: sdk_10_def happy_world_def)
  have h2: "fails sdk_10 GetAssemblyVersion = None"
    by (simp add: sdk_10_def happy_world_def)
  have h3: "assembly_version sdk_10 = (10, 0, 0)"
    by (simp add: sdk_10_def happy_world_def)
  have v10: "version_str (10, 0, 0) = ''10.0.0''"
    by code_simp
  have v9: "version_str (9, 0, 0) = ''9.0.0''"
    by code_simp
  from lexical_version_comparison [OF h1 h2, of "''9.0.0''" 0 0 0 0] h1 h2 h3 v10 v9
  show ?thesis
    by simp
qed

subsection \<open>C8: the order of the calls on the success path\<close>

text \<open>
  Claim C8. When the device is identified and no call raises, \<open>simple_example\<close> makes the
  SDK calls in this order: \<open>Connect\<close>, the five configuration calls (\<open>SetGain\<close>,
  \<open>SetAscanAveraging\<close>, \<open>SetPulseRepetitionRate\<close>, \<open>SetQuadro8x4Transmitter\<close>,
  \<open>SetSingle8x4Transmitter\<close>), the callback registration, \<open>StartAscanSingleTransmitter\<close>,
  a wait of five seconds, \<open>StopAcquisition\<close>, the callback unregistration, and
  \<open>Disconnect\<close>; and it returns \<open>True\<close>.
\<close>

theorem success_path_order:
  assumes "identify_result w device_ip" and "\<forall>c. fails w c = None"
  shows "simple_example w =
           (Return True,
            [Invoke (IdentifyDevice device_ip),
             Invoke (GetDeviceInfo device_ip),
             Log INFO (''Connected to device: Serial='' @ fst (device_info w device_ip)
               @ '', MAC='' @ snd (device_info w device_ip)),
             Invoke NewSDK,
             Invoke (GetAttr ''SetGain''),
             Invoke (Connect device_ip),
             Log INFO ''Connected to device'',
             Invoke (SetGain 10),
             Invoke (SetAscanAveraging 1),
             Invoke (SetPulseRepetitionRate 3),
             Invoke (SetQuadro8x4Transmitter 0),
             Invoke (SetSingle8x4Transmitter 0),
             Invoke Subscribe,
             Invoke StartAscanSingleTransmitter,
             Log INFO ''Started data acquisition...'',
             Invoke (Sleep 5),
             Invoke StopAcquisition,
             Log INFO ''Stopped data acquisition'',
             Invoke Unsubscribe,
             Invoke Disconnect,
             Log INFO ''Disconnected from device'']) \<and>
         invoked (snd (simple_example w)) =
           [IdentifyDevice device_ip, GetDeviceInfo device_ip, NewSDK, GetAttr ''SetGain'',
            Connect device_ip,
            SetGain 10, SetAscanAveraging 1, SetPulseRepetitionRate 3,
            SetQuadro8x4Transmitter 0, SetSingle8x4Transmitter 0,
            Subscribe, StartAscanSingleTransmitter, Sleep 5, StopAcquisition, Unsubscribe,
            Disconnect]"
proof -
  have t: "exec w try_body =
             (Return (),
              [Invoke (Connect device_ip),
               Log INFO ''Connected to device'',
               Invoke (SetGain 10),
               Invoke (SetAscanAveraging 1),
               Invoke (SetPulseRepetitionRate 3),
               Invoke (SetQuadro8x4Transmitter 0),
               Invoke (SetSingle8x4Transmitter 0),
               Invoke Subscribe,
               Invoke StartAscanSingleTransmitter,
               Log INFO ''Started data acquisition...'',
               Invoke (Sleep 5),
               Invoke StopAcquisition,
               Log INFO ''Stopped data acquisition'',
               Invoke Unsubscribe])"
    using assms(2) by (simp add: try_body_def call_def logger_def ret_def bind_Return)
  have f: "exec w finally_body =
             (Return (), [Invoke Disconnect, Log INFO ''Disconnected from device''])"
    using assms(2) by (simp add: finally_body_def call_def logger_def ret_def bind_Return)
  have c: "connect_configure_acquire w =
             (Return True, snd (exec w try_body) @ snd (exec w finally_body))"
    by (simp add: connect_configure_acquire_def try_except_finally_def t f bind_Return ret_def)
  have e: "enters_try w"
    using assms by (simp add: enters_try_def reaches_feature_check_def)
  show ?thesis
    by (simp add: simple_example_enters [OF e] c t f preamble_def)
qed

theorem success_path_order_witness:
  "identify_result happy_world device_ip \<and> (\<forall>c. fails happy_world c = None) \<and>
   fst (simple_example happy_world) = Return True \<and>
   invoked (snd (simple_example happy_world)) =
     [IdentifyDevice ''192.168.137.123'', GetDeviceInfo ''192.168.137.123'', NewSDK,
      GetAttr ''SetGain'', Connect ''192.168.137.123'',
      SetGain 10, SetAscanAveraging 1, SetPulseRepetitionRate 3,
      SetQuadro8x4Transmitter 0, SetSingle8x4Transmitter 0,
      Subscribe, StartAscanSingleTransmitter, Sleep 5, StopAcquisition, Unsubscribe,
      Disconnect]"
proof -
  have h1: "identify_result happy_world device_ip"
    by (simp add: happy_world_def)
  have h2: "\<forall>c. fails happy_world c = None"
    by (simp add: happy_world_def)
  from success_path_order [OF h1 h2] h1 h2 show ?thesis
    by (simp add: device_ip_def)
qed

subsection \<open>C9: which exceptions check_sdk_version catches\<close>

text \<open>
  Claim C9, as the code has it. Once \<open>import System\<close> (line 52, before the \<open>try\<close>
  statement) has succeeded, every exception of class \<open>Exception\<close> that arises in
  \<open>check_sdk_version\<close>, a reflection failure or the below-minimum exception the function
  raises itself, is caught and logged, and the function returns \<open>None\<close>; otherwise it
  returns the version string. An exception raised by \<open>import System\<close>, whatever its
  class, and an exception of the reflection that is not an instance of \<open>Exception\<close>,
  go to the caller, and nothing is logged for them.
\<close>

theorem check_sdk_version_catches:
  "(fails w ImportSystem = Some e \<longrightarrow>
      check_sdk_version w required_version = (Raise e, [Invoke ImportSystem])) \<and>
   (fails w ImportSystem = None \<and> fails w GetAssemblyVersion = Some e \<and>
    \<not> is_Exception e \<longrightarrow>
      check_sdk_version w required_version =
        (Raise e, [Invoke ImportSystem, Invoke GetAssemblyVersion])) \<and>
   (fails w ImportSystem = None \<and> fails w GetAssemblyVersion = Some e \<and>
    is_Exception e \<longrightarrow>
      check_sdk_version w required_version =
        (Return None,
         [Invoke ImportSystem, Invoke GetAssemblyVersion,
          Log ERROR (''Version check failed: '' @ str_exc e)])) \<and>
   (fails w ImportSystem = None \<and> fails w GetAssemblyVersion = None \<longrightarrow>
      check_sdk_version w required_version =
        (if str_lt (version_str (assembly_version w)) required_version
         then (Return None,
               [Invoke ImportSystem, Invoke GetAssemblyVersion,
                Log INFO (''A10x SDK Version: '' @ version_str (assembly_version w)),
                Log ERROR (''Version check failed: SDK version ''
                  @ version_str (assembly_version w) @ '' is below required ''
                  @ required_version)])
         else (Return (Some (version_str (assembly_version w))),
               [Invoke ImportSystem, Invoke GetAssemblyVersion,
                Log INFO (''A10x SDK Version: '' @ version_str (assembly_version w))])))"
proof (intro conjI impI)
  assume "fails w ImportSystem = Some e"
  then show "check_sdk_version w required_version = (Raise e, [Invoke ImportSystem])"
    by (simp add: check_sdk_version_def call_def bind_Raise)
next
  assume "fails w ImportSystem = None \<and> fails w GetAssemblyVersion = Some e \<and>
    \<not> is_Exception e"
  then show "check_sdk_version w required_version =
      (Raise e, [Invoke ImportSystem, Invoke GetAssemblyVersion])"
    by (simp add: check_sdk_version_def call_def bind_Return bind_Raise try_except_def
        try_except_finally_def ret_def)
next
  assume "fails w ImportSystem = None \<and> fails w GetAssemblyVersion = Some e \<and>
    is_Exception e"
  then show "check_sdk_version w required_version =
      (Return None,
       [Invoke ImportSystem, Invoke GetAssemblyVersion,
        Log ERROR (''Version check failed: '' @ str_exc e)])"
    by (simp add: check_sdk_version_def call_def bind_Return bind_Raise try_except_def
        try_except_finally_def ret_def logger_def)
next
  assume "fails w ImportSystem = None \<and> fails w GetAssemblyVersion = None"
  then show "check_sdk_version w required_version =
      (if str_lt (version_str (assembly_version w)) required_version
       then (Return None,
             [Invoke ImportSystem, Invoke GetAssemblyVersion,
              Log INFO (''A10x SDK Version: '' @ version_str (assembly_version w)),
              Log ERROR (''Version check failed: SDK version ''
                @ version_str (assembly_version w) @ '' is below required ''
                @ required_version)])
       else (Return (Some (version_str (assembly_version w))),
             [Invoke ImportSystem, Invoke GetAssemblyVersion,
              Log INFO (''A10x SDK Version: '' @ version_str (assembly_version w))]))"
    by (simp add: check_sdk_version_def Let_def call_def logger_def ret_def raise_def
        bind_Return bind_Raise try_except_def try_except_finally_def is_Exception_def)
qed

text \<open>
  One run for each case: the import fails; the reflection is interrupted; the
  reflection fails with an \<open>Exception\<close>; version 1.2.3 against the required 1.0.0.
\<close>

theorem check_sdk_version_catches_witness:
  "fails import_system_fails ImportSystem = Some (Exc Exception ''No module named System'') \<and>
   check_sdk_version import_system_fails ''1.0.0'' =
     (Raise (Exc Exception ''No module named System''), [Invoke ImportSystem]) \<and>
   fails reflection_interrupted ImportSystem = None \<and>
   fails reflection_interrupted GetAssemblyVersion = Some (Exc KeyboardInterrupt []) \<and>
   \<not> is_Exception (Exc KeyboardInterrupt []) \<and>
   check_sdk_version reflection_interrupted ''1.0.0'' =
     (Raise (Exc KeyboardInterrupt []), [Invoke ImportSystem, Invoke GetAssemblyVersion]) \<and>
   fails reflection_fails ImportSystem = None \<and>
   fails reflection_fails GetAssemblyVersion = Some (Exc Exception ''assembly not loaded'') \<and>
   is_Exception (Exc Exception ''assembly not loaded'') \<and>
   check_sdk_version reflection_fails ''1.0.0'' =
     (Return None,
      [Invoke ImportSystem, Invoke GetAssemblyVersion,
       Log ERROR ''Version check failed: assembly not loaded'']) \<and>
   fails happy_world ImportSystem = None \<and> fails happy_world GetAssemblyVersion = None \<and>
   check_sdk_version happy_world ''1.0.0'' =
     (Return (Some ''1.2.3''),
      [Invoke ImportSystem, Invoke GetAssemblyVersion, Log INFO ''A10x SDK Version: 1.2.3''])"
proof -
  have a1: "fails import_system_fails ImportSystem
              = Some (Exc Exception ''No module named System'')"
    by (simp add: import_system_fails_def happy_world_def)
  have b1: "fails reflection_interrupted ImportSystem = None"
    by (simp add: reflection_interrupted_def happy_world_def)
  have b2: "fails reflection_interrupted GetAssemblyVersion = Some (Exc KeyboardInterrupt [])"
    by (simp add: reflection_interrupted_def happy_world_def)
  have b3: "\<not> is_Exception (Exc KeyboardInterrupt [])"
    by (simp add: is_Exception_def)
  have c1: "fails reflection_fails ImportSystem = None"
    by (simp add: reflection_fails_def happy_world_def)
  have c2: "fails reflection_fails GetAssemblyVersion
              = Some (Exc Exception ''assembly not loaded'')"
    by (simp add: reflection_fails_def happy_world_def)
  have c3: "is_Exception (Exc Exception ''assembly not loaded'')"
    by (simp add: is_Exception_def)
  have d1: "fails happy_world ImportSystem = None"
    by (simp add: happy_world_def)
  have d2: "fails happy_world GetAssemblyVersion = None"
    by (simp add: happy_world_def)
  have v: "version_str (assembly_version happy_world) = ''1.2.3''"
    by code_simp
  from check_sdk_version_catches
         [of import_system_fails "Exc Exception ''No module named System''" "''1.0.0''"]
       check_sdk_version_catches
         [of reflection_interrupted "Exc KeyboardInterrupt []" "''1.0.0''"]
       check_sdk_version_catches
         [of reflection_fails "Exc Exception ''assembly not loaded''" "''1.0.0''"]
       check_sdk_version_catches [of happy_world _ "''1.0.0''"]
       a1 b1 b2 b3 c1 c2 c3 d1 d2 v
  show ?thesis
    by simp
qed

text \<open>
  The claim as written (no exception ever leaves \<open>check_sdk_version\<close>) fails in two runs.
  In the first, \<open>import System\<close> raises: line 52 stands before the \<open>try\<close> of line 53,
  so the exception reaches the caller. In the second, a \<open>KeyboardInterrupt\<close> arrives
  during the reflection: \<open>except Exception\<close> does not match it.
\<close>

theorem check_sdk_version_counterexample:
  "check_sdk_version import_system_fails ''1.0.0'' =
     (Raise (Exc Exception ''No module named System''), [Invoke ImportSystem]) \<and>
   check_sdk_version reflection_interrupted ''1.0.0'' =
     (Raise (Exc KeyboardInterrupt []), [Invoke ImportSystem, Invoke GetAssemblyVersion])"
  by (simp add: check_sdk_version_def try_except_def try_except_finally_def
      import_system_fails_def reflection_interrupted_def happy_world_def bind_def call_def
      ret_def is_Exception_def)

subsection \<open>C10: resolution of a relative folder path\<close>

text \<open>
  Claim C10. For every relative \<open>sdk_folder_path\<close>, \<open>load_sdk_dlls\<close> is to log a warning,
  resolve the path against the directory of the script file and make it absolute (the
  comments of lines 25 and 27 say so), and then check and load from the resolved path.
  The code does this with \<open>os.path.join\<close> alone, and on Windows misses it for a path
  that names another drive without a root. With the script in
  \<open>D:\proj\PythonExample\<close> the argument \<open>C:sdk\<close> is not absolute, so the warning is
  logged; but \<open>os.path.join\<close> returns \<open>C:sdk\<close> itself, which is still not absolute
  and does not lie in the script's directory: the existence check and the four
  \<open>AddReference\<close> calls use a path relative to the current directory of drive \<open>C:\<close>.
  The folder of line 69 is resolved as the comments say.
\<close>

theorem load_sdk_dlls_drive_relative:
  "isabs windows_world (script_dir windows_world) \<and>
   \<not> isabs windows_world ''C:sdk'' \<and>
   resolved_path windows_world ''C:sdk'' = ''C:sdk'' \<and>
   \<not> isabs windows_world (resolved_path windows_world ''C:sdk'') \<and>
   load_sdk_dlls windows_world ''C:sdk'' =
     (Return (),
      [Log WARNING
         ''SDK folder path is relative: C:sdk. Trying to resolve it relative to the current file.'',
       Invoke (AddReference (''C:sdk'' @ [CHR 0x5C] @ ''A10x_SDK.dll'')),
       Invoke (AddReference
                 (''C:sdk'' @ [CHR 0x5C]
                  @ ''Microsoft.Extensions.Logging.Abstractions.dll'')),
       Invoke (AddReference
                 (''C:sdk'' @ [CHR 0x5C]
                  @ ''Microsoft.Extensions.DependencyInjection.Abstractions.dll'')),
       Invoke (AddReference
                 (''C:sdk'' @ [CHR 0x5C] @ ''System.Diagnostics.DiagnosticSource.dll''))]) \<and>
   resolved_path windows_world sdk_folder =
     ''D:'' @ [CHR 0x5C] @ ''proj'' @ [CHR 0x5C] @ ''PythonExample'' @ [CHR 0x5C] @ ''..''
     @ [CHR 0x5C] @ ''sdk''"
proof -
  have a: "isabs windows_world (script_dir windows_world)"
    by (simp add: windows_world_def nt_isabs_def is_sep_def)
  have b: "\<not> isabs windows_world ''C:sdk''"
    by (simp add: windows_world_def nt_isabs_def is_sep_def)
  have j: "path_join windows_world (script_dir windows_world) ''C:sdk'' = ''C:sdk''"
    by (simp add: windows_world_def nt_join_def is_sep_def lower_char_def)
  have r: "resolved_path windows_world ''C:sdk'' = ''C:sdk''"
    using b j by (simp add: resolved_path_def)
  have d: "path_join windows_world ''C:sdk'' n = ''C:sdk'' @ [CHR 0x5C] @ n"
    if "nt_splitroot n = ([], [], n)" for n
    using that by (simp add: windows_world_def nt_join_def is_sep_def)
  have n1: "nt_splitroot ''A10x_SDK.dll'' = ([], [], ''A10x_SDK.dll'')"
    by (simp add: is_sep_def)
  have n2: "nt_splitroot ''Microsoft.Extensions.Logging.Abstractions.dll''
              = ([], [], ''Microsoft.Extensions.Logging.Abstractions.dll'')"
    by (simp add: is_sep_def)
  have n3: "nt_splitroot ''Microsoft.Extensions.DependencyInjection.Abstractions.dll''
              = ([], [], ''Microsoft.Extensions.DependencyInjection.Abstractions.dll'')"
    by (simp add: is_sep_def)
  have n4: "nt_splitroot ''System.Diagnostics.DiagnosticSource.dll''
              = ([], [], ''System.Diagnostics.DiagnosticSource.dll'')"
    by (simp add: is_sep_def)
  have e: "path_exists windows_world ''C:sdk''" and f: "fails windows_world c = None" for c
    by (simp_all add: windows_world_def)
  have l: "load_sdk_dlls windows_world ''C:sdk'' =
     (Return (),
      [Log WARNING
         ''SDK folder path is relative: C:sdk. Trying to resolve it relative to the current file.'',
       Invoke (AddReference (''C:sdk'' @ [CHR 0x5C] @ ''A10x_SDK.dll'')),
       Invoke (AddReference
                 (''C:sdk'' @ [CHR 0x5C]
                  @ ''Microsoft.Extensions.Logging.Abstractions.dll'')),
       Invoke (AddReference
                 (''C:sdk'' @ [CHR 0x5C]
                  @ ''Microsoft.Extensions.DependencyInjection.Abstractions.dll'')),
       Invoke (AddReference
                 (''C:sdk'' @ [CHR 0x5C] @ ''System.Diagnostics.DiagnosticSource.dll''))])"
    by (simp add: load_sdk_dlls_def Let_def b r e f d [OF n1] d [OF n2] d [OF n3] d [OF n4]
        logger_def call_def ret_def bind_Return)
  have s: "resolved_path windows_world sdk_folder =
     ''D:'' @ [CHR 0x5C] @ ''proj'' @ [CHR 0x5C] @ ''PythonExample'' @ [CHR 0x5C] @ ''..''
     @ [CHR 0x5C] @ ''sdk''"
    by (simp add: resolved_path_def windows_world_def nt_isabs_def nt_join_def is_sep_def
        lower_char_def sdk_folder_def)
  from a b r l s show ?thesis by simp
qed

end
